theory Spec2Isabelle
  imports Complex_Main
begin

section \<open>Python values: exceptions, list indexing, numbers\<close>

text \<open>
  The program is a single Python module, \<^verbatim>\<open>telegram_bot.py\<close>. Every text it raises or
  sends is a fixed Russian sentence; the model names each sentence by a constructor.
  The messages carried by \<^verbatim>\<open>ValueError\<close>:
  \<^item> \<open>PlaceNotFound\<close>: raised by \<^verbatim>\<open>get_coordinates\<close> (the city is not on the map);
  \<^item> \<open>InvalidDateFormat\<close>: raised by the handler of \<^verbatim>\<open>validate_date\<close> (enter the date as DD.MM.YYYY);
  \<^item> \<open>FutureYear\<close>: raised inside the \<^verbatim>\<open>try\<close> block of \<^verbatim>\<open>validate_date\<close> (that year has not come yet);
  \<^item> \<open>InvalidTimeFormat\<close>: raised by \<^verbatim>\<open>validate_time\<close> (enter the time as HH:MM);
  \<^item> \<open>TimezoneUnknown\<close>: raised by \<^verbatim>\<open>calculate_ascendant\<close> (no timezone for the coordinates);
  \<^item> \<open>LibraryMessage\<close>: any message written by the Python library itself
    (\<^verbatim>\<open>strptime\<close>, \<^verbatim>\<open>int\<close>, \<^verbatim>\<open>datetime\<close>, tuple unpacking).
\<close>

datatype message =
    PlaceNotFound
  | InvalidDateFormat
  | FutureYear
  | InvalidTimeFormat
  | TimezoneUnknown
  | LibraryMessage

text \<open>
  The exceptions that can travel through the module. \<open>OtherError\<close> stands for an
  exception of a collaborator that is no \<^verbatim>\<open>ValueError\<close> (\<^verbatim>\<open>sqlite3.Error\<close>,
  \<^verbatim>\<open>swisseph.Error\<close>, \<^verbatim>\<open>OverflowError\<close>, a geocoder's transport error).
\<close>

datatype exn = ValueError message | IndexError | KeyError | OtherError

text \<open>
  \<^verbatim>\<open>xs[i]\<close> on a Python list: a negative index counts from the end, and an index
  outside \<open>-len \<dots> len - 1\<close> raises \<^verbatim>\<open>IndexError\<close>.
\<close>

definition getitem :: "'a list \<Rightarrow> int \<Rightarrow> exn + 'a" where
  "getitem xs i =
     (let n = int (length xs);
          j = (if i < 0 then i + n else i)
      in if 0 \<le> j \<and> j < n then Inr (xs ! nat j) else Inl IndexError)"

text \<open>
  The position of the first occurrence of a value in a list (\<^verbatim>\<open>list.index\<close>), used to
  speak about the index of a returned sign.
\<close>

fun index_of :: "'a list \<Rightarrow> 'a \<Rightarrow> nat" where
  "index_of [] y = 0"
| "index_of (x # xs) y = (if x = y then 0 else Suc (index_of xs y))"

section \<open>Degrees and zodiac signs\<close>

text \<open>
  The twelve strings of the list \<^verbatim>\<open>signs\<close> in \<^verbatim>\<open>get_zodiac_sign\<close>, in the order of the
  source: Oven, Telets, Bliznetsy, Rak, Lev, Deva, Vesy, Skorpion, Strelets, Kozerog,
  Vodoley, Ryby.
\<close>

datatype sign =
    Aries | Taurus | Gemini | Cancer | Leo | Virgo
  | Libra | Scorpio | Sagittarius | Capricorn | Aquarius | Pisces

definition signs :: "sign list" where
  "signs = [Aries, Taurus, Gemini, Cancer, Leo, Virgo,
            Libra, Scorpio, Sagittarius, Capricorn, Aquarius, Pisces]"

text \<open>
  A Python float is a finite number, one of the two infinities, or not a number. A
  finite float is modelled by the rational number it denotes. \<open>float_le\<close> is the
  comparison \<^verbatim>\<open><=\<close> of two floats: every comparison with not-a-number is false.
\<close>

datatype pyfloat = Finite rat | PosInf | NegInf | NaN

fun float_le :: "pyfloat \<Rightarrow> pyfloat \<Rightarrow> bool" where
  "float_le NaN y = False"
| "float_le x NaN = False"
| "float_le NegInf y = True"
| "float_le x PosInf = True"
| "float_le (Finite a) (Finite b) = (a \<le> b)"
| "float_le x y = False"

text \<open>
  \<^verbatim>\<open>signs[int(degree // 30)]\<close>. For a finite degree \<^verbatim>\<open>degree // 30\<close> is the floor of
  the quotient: the library computes it from the exact remainder
  \<^verbatim>\<open>fmod(degree, 30)\<close>, which is exact for a degree between \<open>-360\<close> and \<open>360\<close>; for a
  larger finite float the quotient may be rounded but stays at least 12, so that the
  outcome is the same; \<^verbatim>\<open>int\<close> of that integral float is the same integer. For an
  infinite degree and for not-a-number \<^verbatim>\<open>degree // 30\<close> is not-a-number, and \<^verbatim>\<open>int\<close>
  of it raises \<^verbatim>\<open>ValueError\<close>.
\<close>

definition get_zodiac_sign :: "pyfloat \<Rightarrow> exn + sign" where
  "get_zodiac_sign degree =
     (case degree of
        Finite d \<Rightarrow> getitem signs \<lfloor>d / 30\<rfloor>
      | PosInf \<Rightarrow> Inl (ValueError LibraryMessage)
      | NegInf \<Rightarrow> Inl (ValueError LibraryMessage)
      | NaN \<Rightarrow> Inl (ValueError LibraryMessage))"

section \<open>Text, regular expressions and \<^verbatim>\<open>int\<close>\<close>

text \<open>
  A text is a \<open>string\<close>: the UTF-8 encoding of the Python \<^verbatim>\<open>str\<close>, one character of
  the \<open>string\<close> per byte. An ASCII character is one byte below 128, and such a byte never
  occurs inside the encoding of another character: a pattern made of ASCII literals and
  ASCII classes is matched byte by byte. The classes \<^verbatim>\<open>\d\<close> and \<^verbatim>\<open>\s\<close> of Python's
  \<^verbatim>\<open>re\<close>, \<^verbatim>\<open>int\<close> and its stripping of white space work on code points.
\<close>

definition between :: "char \<Rightarrow> char \<Rightarrow> char \<Rightarrow> bool" where
  "between lo hi c = ((of_char lo :: nat) \<le> of_char c \<and> (of_char c :: nat) \<le> of_char hi)"

definition is_digit :: "char \<Rightarrow> bool" where
  "is_digit c = between CHR ''0'' CHR ''9'' c"

definition digit_value :: "char \<Rightarrow> nat" where
  "digit_value c = of_char c - 48"

text \<open>
  The first code point of a text: its number (an integer), its bytes and the rest of
  the text. A
  leading byte below 128 stands for itself; a leading byte from 192, 224 or 240 is
  followed by one, two or three continuation bytes (128 to 191) of six bits each. A text
  that is the encoding of a \<^verbatim>\<open>str\<close> has no other shape.
\<close>

definition continuation :: "char \<Rightarrow> bool" where
  "continuation c = ((128 :: int) \<le> of_char c \<and> (of_char c :: int) < 192)"

definition six_bits :: "char \<Rightarrow> int" where
  "six_bits c = of_char c - 128"

definition utf8_head :: "string \<Rightarrow> (int \<times> string \<times> string) option" where
  "utf8_head s =
     (case s of
        [] \<Rightarrow> None
      | b0 # s1 \<Rightarrow>
          (let n0 = (of_char b0 :: int)
           in if n0 < 128 then Some (n0, [b0], s1)
              else if 192 \<le> n0 \<and> n0 < 224 then
                (case s1 of
                   b1 # r \<Rightarrow>
                     if continuation b1
                     then Some ((n0 - 192) * 64 + six_bits b1, [b0, b1], r)
                     else None
                 | _ \<Rightarrow> None)
              else if 224 \<le> n0 \<and> n0 < 240 then
                (case s1 of
                   b1 # b2 # r \<Rightarrow>
                     if continuation b1 \<and> continuation b2
                     then Some (((n0 - 224) * 64 + six_bits b1) * 64 + six_bits b2,
                                [b0, b1, b2], r)
                     else None
                 | _ \<Rightarrow> None)
              else if 240 \<le> n0 \<and> n0 < 248 then
                (case s1 of
                   b1 # b2 # b3 # r \<Rightarrow>
                     if continuation b1 \<and> continuation b2 \<and> continuation b3
                     then Some ((((n0 - 240) * 64 + six_bits b1) * 64 + six_bits b2) * 64
                                  + six_bits b3,
                                [b0, b1, b2, b3], r)
                     else None
                 | _ \<Rightarrow> None)
              else None))"

text \<open>The code points of a whole text; \<open>None\<close> for bytes that encode no \<^verbatim>\<open>str\<close>.\<close>

function utf8_decode :: "string \<Rightarrow> int list option" where
  "utf8_decode s =
     (case utf8_head s of
        None \<Rightarrow> (if s = [] then Some [] else None)
      | Some (cp, m, r) \<Rightarrow> map_option ((#) cp) (utf8_decode r))"
  by pat_completeness auto
termination
  by (relation "measure length")
     (auto simp add: utf8_head_def Let_def split: list.splits if_splits)

declare utf8_decode.simps [simp del]

text \<open>
  The decimal digits of Unicode 14.0, the version of the character database of
  Python 3.11: sixty-six runs of ten consecutive code points, each run the digits zero to
  nine of one script. \<open>decimal_zeros\<close> lists the zero of each run. A code point is matched
  by \<^verbatim>\<open>\d\<close>, and converted by \<^verbatim>\<open>int\<close>, exactly when it lies in one of the runs; its
  value is its distance from the zero of the run. A later version of the database adds
  runs for new scripts.
\<close>

definition decimal_zeros :: "int list" where
  "decimal_zeros =
     [48, 1632, 1776, 1984, 2406, 2534, 2662, 2790, 2918, 3046, 3174, 3302,
      3430, 3558, 3664, 3792, 3872, 4160, 4240, 6112, 6160, 6470, 6608,
      6784, 6800, 6992, 7088, 7232, 7248, 42528, 43216, 43264, 43472,
      43504, 43600, 44016, 65296, 66720, 68912, 69734, 69872, 69942, 70096,
      70384, 70736, 70864, 71248, 71360, 71472, 71904, 72016, 72784, 73040,
      73120, 92768, 92864, 93008, 120782, 120792, 120802, 120812, 120822,
      123200, 123632, 125264, 130032]"

definition decimal_value :: "int \<Rightarrow> int option" where
  "decimal_value cp =
     (case find (\<lambda>z. z \<le> cp \<and> cp \<le> z + 9) decimal_zeros of
        None \<Rightarrow> None
      | Some z \<Rightarrow> Some (cp - z))"

text \<open>
  The code points for which \<^verbatim>\<open>str.isspace\<close> holds; they are also the ones that
  \<^verbatim>\<open>\s\<close> matches and that \<^verbatim>\<open>int\<close> strips.
\<close>

definition white_space :: "int list" where
  "white_space =
     [9, 10, 11, 12, 13, 28, 29, 30, 31, 32, 133, 160, 5760, 8192, 8193,
      8194, 8195, 8196, 8197, 8198, 8199, 8200, 8201, 8202, 8232, 8233,
      8239, 8287, 12288]"

definition is_space :: "int \<Rightarrow> bool" where
  "is_space cp = (cp \<in> set white_space)"

definition strip :: "int list \<Rightarrow> int list" where
  "strip cps = rev (dropWhile is_space (rev (dropWhile is_space cps)))"

text \<open>
  \<^verbatim>\<open>int(s)\<close>, restricted to unsigned decimal literals without underscores: the module
  passes to \<^verbatim>\<open>int\<close> only pieces of text that a digit pattern has matched. Surrounding
  white space is stripped, as Python does, and the digits of every script count;
  anything else raises \<^verbatim>\<open>ValueError\<close>.
\<close>

definition digits_value :: "int list \<Rightarrow> int" where
  "digits_value cps =
     foldl (\<lambda>a cp. 10 * a + (case decimal_value cp of None \<Rightarrow> 0 | Some v \<Rightarrow> v)) 0 cps"

definition py_int :: "string \<Rightarrow> exn + int" where
  "py_int s =
     (case utf8_decode s of
        None \<Rightarrow> Inl (ValueError LibraryMessage)
      | Some cps \<Rightarrow>
          (let t = strip cps
           in if t \<noteq> [] \<and> list_all (\<lambda>cp. decimal_value cp \<noteq> None) t
              then Inr (digits_value t)
              else Inl (ValueError LibraryMessage)))"

text \<open>\<^verbatim>\<open>s.split(sep)\<close> for a separator of one character.\<close>

fun split_on :: "char \<Rightarrow> string \<Rightarrow> string list" where
  "split_on sep [] = [[]]"
| "split_on sep (c # cs) =
     (if c = sep then [] # split_on sep cs
      else (case split_on sep cs of
              [] \<Rightarrow> [[c]]
            | p # ps \<Rightarrow> (c # p) # ps))"

text \<open>
  A backtracking matcher returns the list of its successes in the order in which
  Python's \<^verbatim>\<open>re\<close> would try them: each success is the matched text and the rest of the
  input. \<open>chars\<close> matches one ASCII character per class; \<open>re_digit\<close> is \<^verbatim>\<open>\d\<close>, one
  decimal digit of any script; an alternation \<^verbatim>\<open>a|b\<close> is the successes of \<open>a\<close> followed
  by those of \<open>b\<close>; a sequence (\<open>then_match\<close>) feeds every rest to the next matcher.
  \<^verbatim>\<open>re.match\<close> takes the first success of the whole pattern.
\<close>

fun chars :: "(char \<Rightarrow> bool) list \<Rightarrow> string \<Rightarrow> (string \<times> string) list" where
  "chars [] s = [([], s)]"
| "chars (p # ps) [] = []"
| "chars (p # ps) (c # s) =
     (if p c then map (\<lambda>(m, r). (c # m, r)) (chars ps s) else [])"

definition lit :: "char \<Rightarrow> string \<Rightarrow> string list" where
  "lit x s = (case s of [] \<Rightarrow> [] | c # r \<Rightarrow> if c = x then [r] else [])"

definition re_digit :: "string \<Rightarrow> (string \<times> string) list" where
  "re_digit s =
     (case utf8_head s of
        None \<Rightarrow> []
      | Some (cp, m, r) \<Rightarrow> if decimal_value cp \<noteq> None then [(m, r)] else [])"

definition then_match ::
  "(string \<Rightarrow> (string \<times> string) list) \<Rightarrow> (string \<Rightarrow> (string \<times> string) list)
   \<Rightarrow> string \<Rightarrow> (string \<times> string) list" where
  "then_match p q s = [(m1 @ m2, r2). (m1, r1) \<leftarrow> p s, (m2, r2) \<leftarrow> q r1]"

text \<open>
  The patterns that \<^verbatim>\<open>datetime.strptime\<close> substitutes for its directives:
  \<^verbatim>\<open>%d\<close> is \<^verbatim>\<open>3[0-1]|[1-2]\d|0[1-9]|[1-9]| [1-9]\<close>,
  \<^verbatim>\<open>%m\<close> is \<^verbatim>\<open>1[0-2]|0[1-9]|[1-9]\<close>,
  \<^verbatim>\<open>%Y\<close> is \<^verbatim>\<open>\d\d\d\d\<close>,
  \<^verbatim>\<open>%H\<close> is \<^verbatim>\<open>2[0-3]|[0-1]\d|\d\<close>,
  \<^verbatim>\<open>%M\<close> is \<^verbatim>\<open>[0-5]\d|\d\<close> and
  \<^verbatim>\<open>%S\<close> is \<^verbatim>\<open>6[0-1]|[0-5]\d|\d\<close>.
\<close>

definition re_d :: "string \<Rightarrow> (string \<times> string) list" where
  "re_d s =
     chars [(=) CHR ''3'', between CHR ''0'' CHR ''1''] s
     @ then_match (chars [between CHR ''1'' CHR ''2'']) re_digit s
     @ chars [(=) CHR ''0'', between CHR ''1'' CHR ''9''] s
     @ chars [between CHR ''1'' CHR ''9''] s
     @ chars [(=) CHR '' '', between CHR ''1'' CHR ''9''] s"

definition re_m :: "string \<Rightarrow> (string \<times> string) list" where
  "re_m s =
     chars [(=) CHR ''1'', between CHR ''0'' CHR ''2''] s
     @ chars [(=) CHR ''0'', between CHR ''1'' CHR ''9''] s
     @ chars [between CHR ''1'' CHR ''9''] s"

definition re_Y :: "string \<Rightarrow> (string \<times> string) list" where
  "re_Y s = then_match re_digit (then_match re_digit (then_match re_digit re_digit)) s"

definition re_H :: "string \<Rightarrow> (string \<times> string) list" where
  "re_H s =
     chars [(=) CHR ''2'', between CHR ''0'' CHR ''3''] s
     @ then_match (chars [between CHR ''0'' CHR ''1'']) re_digit s
     @ re_digit s"

definition re_M :: "string \<Rightarrow> (string \<times> string) list" where
  "re_M s = then_match (chars [between CHR ''0'' CHR ''5'']) re_digit s @ re_digit s"

definition re_S :: "string \<Rightarrow> (string \<times> string) list" where
  "re_S s =
     chars [(=) CHR ''6'', between CHR ''0'' CHR ''1''] s
     @ then_match (chars [between CHR ''0'' CHR ''5'']) re_digit s
     @ re_digit s"

text \<open>
  \<^verbatim>\<open>\s+\<close>, by which \<^verbatim>\<open>strptime\<close> replaces white space of the format: greedy, so the
  longest run of white space is tried first. \<open>space_rests\<close> lists what is left of the
  text after one, two and more leading white-space code points.
\<close>

function space_rests :: "string \<Rightarrow> string list" where
  "space_rests s =
     (case utf8_head s of
        None \<Rightarrow> []
      | Some (cp, m, r) \<Rightarrow> if is_space cp then r # space_rests r else [])"
  by pat_completeness auto
termination
  by (relation "measure length")
     (auto simp add: utf8_head_def Let_def split: list.splits if_splits)

declare space_rests.simps [simp del]

definition re_spaces :: "string \<Rightarrow> string list" where
  "re_spaces s = rev (space_rests s)"

section \<open>Dates and times\<close>

text \<open>
  A \<^verbatim>\<open>datetime\<close> without timezone. Its constructor raises \<^verbatim>\<open>ValueError\<close> for a field
  out of range; the year runs from 1 to 9999 in the proleptic Gregorian calendar.
\<close>

record datetime =
  year :: int
  month :: int
  day :: int
  hour :: int
  minute :: int
  second :: int

definition is_leap :: "int \<Rightarrow> bool" where
  "is_leap y = (y mod 4 = 0 \<and> (y mod 100 \<noteq> 0 \<or> y mod 400 = 0))"

definition days_in_month :: "int \<Rightarrow> int \<Rightarrow> int" where
  "days_in_month y m =
     (if m = 2 then (if is_leap y then 29 else 28)
      else if m = 4 \<or> m = 6 \<or> m = 9 \<or> m = 11 then 30
      else 31)"

definition datetime_new :: "int \<Rightarrow> int \<Rightarrow> int \<Rightarrow> int \<Rightarrow> int \<Rightarrow> int \<Rightarrow> exn + datetime" where
  "datetime_new y m d hh mm ss =
     (if 1 \<le> y \<and> y \<le> 9999 \<and> 1 \<le> m \<and> m \<le> 12 \<and> 1 \<le> d \<and> d \<le> days_in_month y m
         \<and> 0 \<le> hh \<and> hh \<le> 23 \<and> 0 \<le> mm \<and> mm \<le> 59 \<and> 0 \<le> ss \<and> ss \<le> 59
      then Inr \<lparr>year = y, month = m, day = d, hour = hh, minute = mm, second = ss\<rparr>
      else Inl (ValueError LibraryMessage))"

text \<open>
  \<^verbatim>\<open>datetime.strptime(s, "%d.%m.%Y")\<close>. The format compiles to the pattern
  \<^verbatim>\<open>(%d)\.(%m)\.(%Y)\<close>, matched at the start of the text. No match raises
  \<^verbatim>\<open>ValueError\<close>; so does a match that leaves text unconverted, and so does a day that the
  month does not have.
\<close>

definition match_dmY :: "string \<Rightarrow> (string \<times> string \<times> string \<times> string) list" where
  "match_dmY s =
     [(d, m, y, r5).
        (d, r1) \<leftarrow> re_d s, r2 \<leftarrow> lit CHR ''.'' r1,
        (m, r3) \<leftarrow> re_m r2, r4 \<leftarrow> lit CHR ''.'' r3,
        (y, r5) \<leftarrow> re_Y r4]"

definition strptime_dmY :: "string \<Rightarrow> exn + datetime" where
  "strptime_dmY s =
     (case match_dmY s of
        [] \<Rightarrow> Inl (ValueError LibraryMessage)
      | (d, m, y, rest) # _ \<Rightarrow>
          if rest \<noteq> [] then Inl (ValueError LibraryMessage)
          else (case (py_int y, py_int m, py_int d) of
                  (Inr yy, Inr mm, Inr dd) \<Rightarrow> datetime_new yy mm dd 0 0 0
                | _ \<Rightarrow> Inl (ValueError LibraryMessage)))"

text \<open>
  \<^verbatim>\<open>validate_date\<close>. Both the parse and the year check stand inside the \<^verbatim>\<open>try\<close> block,
  and the \<^verbatim>\<open>except ValueError\<close> clause replaces whatever \<^verbatim>\<open>ValueError\<close> was raised
  there by one with the format message.
\<close>

definition validate_date :: "string \<Rightarrow> exn + datetime" where
  "validate_date date_str =
     (case (case strptime_dmY date_str of
              Inl e \<Rightarrow> Inl e
            | Inr date \<Rightarrow>
                if year date > 2024 then Inl (ValueError FutureYear) else Inr date) of
        Inl (ValueError _) \<Rightarrow> Inl (ValueError InvalidDateFormat)
      | Inl e \<Rightarrow> Inl e
      | Inr date \<Rightarrow> Inr date)"

text \<open>
  \<^verbatim>\<open>re.match(r"^[0-2][0-9]:[0-5][0-9]$", time_str)\<close>. Without the multiline flag,
  \<^verbatim>\<open>$\<close> matches at the end of the text and also just before a line feed that ends it.
\<close>

definition match_time :: "string \<Rightarrow> bool" where
  "match_time s =
     (case chars [between CHR ''0'' CHR ''2'', between CHR ''0'' CHR ''9'', (=) CHR '':'',
                  between CHR ''0'' CHR ''5'', between CHR ''0'' CHR ''9''] s of
        [] \<Rightarrow> False
      | (m, rest) # _ \<Rightarrow> rest = [] \<or> rest = [CHR 0x0A])"

text \<open>
  \<^verbatim>\<open>validate_time\<close>. \<^verbatim>\<open>hours, minutes = map(int, time_str.split(":"))\<close> raises
  \<^verbatim>\<open>ValueError\<close> when \<^verbatim>\<open>int\<close> does or when there are not exactly two pieces.
\<close>

definition validate_time :: "string \<Rightarrow> exn + (int \<times> int)" where
  "validate_time time_str =
     (if match_time time_str then
        (case map py_int (split_on CHR '':'' time_str) of
           [Inr hours, Inr minutes] \<Rightarrow>
             if 0 \<le> hours \<and> hours \<le> 23 \<and> 0 \<le> minutes \<and> minutes \<le> 59
             then Inr (hours, minutes)
             else Inl (ValueError InvalidTimeFormat)
         | _ \<Rightarrow> Inl (ValueError LibraryMessage))
      else Inl (ValueError InvalidTimeFormat))"

text \<open>
  \<^verbatim>\<open>str(n)\<close> for an integer, as the f-string of \<^verbatim>\<open>calculate_planet_positions\<close> writes it:
  decimal digits without padding, a minus sign for a negative number.
\<close>

fun str_nat :: "nat \<Rightarrow> string" where
  "str_nat n =
     (if n < 10 then [char_of (48 + n)]
      else str_nat (n div 10) @ [char_of (48 + n mod 10)])"

declare str_nat.simps [simp del]

definition py_str :: "int \<Rightarrow> string" where
  "py_str i = (if i < 0 then CHR ''-'' # str_nat (nat (- i)) else str_nat (nat i))"

text \<open>
  \<^verbatim>\<open>datetime.strptime(s, "%Y-%m-%d %H:%M:%S")\<close>: the pattern is
  \<^verbatim>\<open>(%Y)-(%m)-(%d)\s+(%H):(%M):(%S)\<close>.
\<close>

definition match_YmdHMS ::
  "string \<Rightarrow> (string \<times> string \<times> string \<times> string \<times> string \<times> string \<times> string) list" where
  "match_YmdHMS s =
     [(y, m, d, hh, mm, ss, r11).
        (y, r1) \<leftarrow> re_Y s, r2 \<leftarrow> lit CHR ''-'' r1,
        (m, r3) \<leftarrow> re_m r2, r4 \<leftarrow> lit CHR ''-'' r3,
        (d, r5) \<leftarrow> re_d r4, r6 \<leftarrow> re_spaces r5,
        (hh, r7) \<leftarrow> re_H r6, r8 \<leftarrow> lit CHR '':'' r7,
        (mm, r9) \<leftarrow> re_M r8, r10 \<leftarrow> lit CHR '':'' r9,
        (ss, r11) \<leftarrow> re_S r10]"

definition strptime_YmdHMS :: "string \<Rightarrow> exn + datetime" where
  "strptime_YmdHMS s =
     (case match_YmdHMS s of
        [] \<Rightarrow> Inl (ValueError LibraryMessage)
      | (y, m, d, hh, mm, ss, rest) # _ \<Rightarrow>
          if rest \<noteq> [] then Inl (ValueError LibraryMessage)
          else (case (py_int y, py_int m, py_int d, py_int hh, py_int mm, py_int ss) of
                  (Inr yy, Inr mo, Inr dd, Inr h, Inr mi, Inr se) \<Rightarrow>
                    datetime_new yy mo dd h mi se
                | _ \<Rightarrow> Inl (ValueError LibraryMessage)))"

section \<open>Collaborators and effects\<close>

text \<open>
  The labels of the module: the ten planet names of the list \<^verbatim>\<open>planets\<close> (Solntse, Luna,
  Merkuriy, Venera, Mars, Yupiter, Saturn, Uran, Neptun, Pluton), the pseudo-body
  Astsendent, and the callback data \<^verbatim>\<open>new_chart\<close>. They are the callback data of the
  twelve buttons and the table names of the description store.
\<close>

datatype label =
    Sun | Moon | Mercury | Venus | Mars | Jupiter | Saturn | Uranus | Neptune | Pluto
  | Ascendant | New_chart

definition planets :: "label list" where
  "planets = [Sun, Moon, Mercury, Venus, Mars, Jupiter, Saturn, Uranus, Neptune, Pluto]"

text \<open>
  A description is the text of a row of the store, or the fixed fallback sentence of
  \<^verbatim>\<open>get_planet_description\<close> (description not found).
\<close>

datatype description = Description string | Description_not_found

record position =
  degree :: pyfloat
  zodiac_sign :: sign
  description :: description

text \<open>
  What the bot sends: the three prompts, the chart-ready message with its keyboard, the
  text of a caught \<^verbatim>\<open>ValueError\<close>, and the formatted position of a body. The position
  text shows the degree rounded to two decimals; the model keeps the stored values.
\<close>

datatype reply =
    Ask_date
  | Ask_time
  | Ask_place
  | Chart_ready
  | Error_text message
  | Position_text label pyfloat sign description

text \<open>
  Every call of a collaborator and every outbound message is an event. The type
  \<open>'jd\<close> is the julian day, whatever \<^verbatim>\<open>swe.julday\<close> returns.
\<close>

datatype 'jd event =
    Geocode string
  | Timezone_at rat rat
  | Timezone string
  | To_utc string datetime
  | Set_topo rat rat rat
  | Calc_ut 'jd nat
  | Houses 'jd rat rat
  | Fetch label sign
  | Answer_query
  | Reply reply
  | Edit_message_text reply
  | Edit_reply_markup

text \<open>
  The libraries the module calls are parameters of the model. Each may raise.
  \<^item> \<open>geocode\<close>: \<^verbatim>\<open>Nominatim.geocode\<close>, the coordinates of a location or \<^verbatim>\<open>None\<close>;
  \<^item> \<open>timezone_at\<close>: \<^verbatim>\<open>TimezoneFinder.timezone_at\<close>, a zone name or \<^verbatim>\<open>None\<close>;
  \<^item> \<open>timezone\<close>: \<^verbatim>\<open>pytz.timezone(name)\<close>, the zone of that name (kept as a name);
  \<^item> \<open>to_utc\<close>: \<^verbatim>\<open>zone.localize(dt).astimezone(pytz.utc)\<close>;
  \<^item> \<open>julday\<close>: \<^verbatim>\<open>swe.julday(year, month, day, hour)\<close>;
  \<^item> \<open>calc_ut\<close>: the first component of the position of \<^verbatim>\<open>swe.calc_ut(jd, index)\<close>;
  \<^item> \<open>houses\<close>: the first component of \<^verbatim>\<open>ascmc\<close> of \<^verbatim>\<open>swe.houses(jd, lat, lon, b'P')\<close>;
  \<^item> \<open>fetch\<close>: the row that the query of \<^verbatim>\<open>get_planet_description\<close> finds, or \<^verbatim>\<open>None\<close>.
\<close>

record 'jd collab =
  geocode :: "string \<Rightarrow> exn + (rat \<times> rat) option"
  timezone_at :: "rat \<Rightarrow> rat \<Rightarrow> exn + string option"
  timezone :: "string \<Rightarrow> exn + string"
  to_utc :: "string \<Rightarrow> datetime \<Rightarrow> exn + datetime"
  julday :: "int \<Rightarrow> int \<Rightarrow> int \<Rightarrow> rat \<Rightarrow> 'jd"
  calc_ut :: "'jd \<Rightarrow> nat \<Rightarrow> exn + pyfloat"
  houses :: "'jd \<Rightarrow> rat \<Rightarrow> rat \<Rightarrow> exn + pyfloat"
  fetch :: "label \<Rightarrow> sign \<Rightarrow> exn + string option"

text \<open>
  A computation returns the events it caused, in order, and its result or the exception
  that ended it. \<open>bind_run\<close> runs a second computation after a first one that returned.
\<close>

type_synonym ('jd, 'a) run = "'jd event list \<times> (exn + 'a)"

definition bind_run :: "('jd, 'a) run \<Rightarrow> ('a \<Rightarrow> ('jd, 'b) run) \<Rightarrow> ('jd, 'b) run" where
  "bind_run r f =
     (case r of
        (ev, Inl e) \<Rightarrow> (ev, Inl e)
      | (ev, Inr x) \<Rightarrow> (case f x of (ev', y) \<Rightarrow> (ev @ ev', y)))"

definition emit :: "'jd event \<Rightarrow> exn + 'a \<Rightarrow> ('jd, 'a) run" where
  "emit ev r = ([ev], r)"

definition pure_run :: "exn + 'a \<Rightarrow> ('jd, 'a) run" where
  "pure_run r = ([], r)"

section \<open>Geo resolver\<close>

definition get_coordinates :: "'jd collab \<Rightarrow> string \<Rightarrow> ('jd, rat \<times> rat) run" where
  "get_coordinates c city_name =
     bind_run (emit (Geocode city_name) (geocode c city_name)) (\<lambda>location.
       case location of
         Some (latitude, longitude) \<Rightarrow> pure_run (Inr (latitude, longitude))
       | None \<Rightarrow> pure_run (Inl (ValueError PlaceNotFound)))"

text \<open>
  \<^verbatim>\<open>get_timezone\<close> returns what \<^verbatim>\<open>timezone_at\<close> returns, \<^verbatim>\<open>None\<close> included: the body
  has no check and no \<^verbatim>\<open>raise\<close>.
\<close>

definition get_timezone :: "'jd collab \<Rightarrow> rat \<Rightarrow> rat \<Rightarrow> ('jd, string option) run" where
  "get_timezone c latitude longitude =
     emit (Timezone_at latitude longitude) (timezone_at c latitude longitude)"

section \<open>Chart calculator\<close>

definition get_planet_description :: "'jd collab \<Rightarrow> label \<Rightarrow> sign \<Rightarrow> ('jd, description) run" where
  "get_planet_description c planet sg =
     bind_run (emit (Fetch planet sg) (fetch c planet sg)) (\<lambda>result.
       case result of
         Some text \<Rightarrow> pure_run (Inr (Description text))
       | None \<Rightarrow> pure_run (Inr Description_not_found))"

text \<open>\<^verbatim>\<open>d[k] = v\<close> on a dictionary kept as the list of its items in insertion order.\<close>

fun dict_set :: "('k \<times> 'v) list \<Rightarrow> 'k \<Rightarrow> 'v \<Rightarrow> ('k \<times> 'v) list" where
  "dict_set [] k v = [(k, v)]"
| "dict_set ((k', v') # kvs) k v =
     (if k' = k then (k, v) # kvs else (k', v') # dict_set kvs k v)"

text \<open>One pass of the loop over \<^verbatim>\<open>enumerate(planets)\<close>, and the loop.\<close>

definition planet_step ::
  "'jd collab \<Rightarrow> 'jd \<Rightarrow> nat \<times> label \<Rightarrow> (label \<times> position) list
   \<Rightarrow> ('jd, (label \<times> position) list) run" where
  "planet_step c julian_day p planet_positions =
     (case p of (planet_index, planet_name) \<Rightarrow>
        bind_run (emit (Calc_ut julian_day planet_index) (calc_ut c julian_day planet_index))
          (\<lambda>deg.
        bind_run (pure_run (get_zodiac_sign deg)) (\<lambda>sg.
        bind_run (get_planet_description c planet_name sg) (\<lambda>descr.
        pure_run (Inr (dict_set planet_positions planet_name
          \<lparr>degree = deg, zodiac_sign = sg, description = descr\<rparr>))))))"

primrec planets_loop ::
  "'jd collab \<Rightarrow> 'jd \<Rightarrow> (nat \<times> label) list \<Rightarrow> (label \<times> position) list
   \<Rightarrow> ('jd, (label \<times> position) list) run" where
  "planets_loop c julian_day [] planet_positions = pure_run (Inr planet_positions)"
| "planets_loop c julian_day (p # ps) planet_positions =
     (case planet_step c julian_day p planet_positions of
        (ev, Inl e) \<Rightarrow> (ev, Inl e)
      | (ev, Inr planet_positions') \<Rightarrow>
          (case planets_loop c julian_day ps planet_positions' of
             (ev', r) \<Rightarrow> (ev @ ev', r)))"

text \<open>
  \<^verbatim>\<open>calculate_planet_positions\<close> writes the civil date and time into a string, parses
  it back, and takes the julian day of that civil time as it stands: no timezone is
  looked up here.
\<close>

definition calculate_planet_positions ::
  "'jd collab \<Rightarrow> int \<Rightarrow> int \<Rightarrow> int \<Rightarrow> int \<Rightarrow> int \<Rightarrow> rat \<Rightarrow> rat
   \<Rightarrow> ('jd, (label \<times> position) list) run" where
  "calculate_planet_positions c y mo d h mi latitude longitude =
     (let date_str = py_str y @ ''-'' @ py_str mo @ ''-'' @ py_str d @ '' ''
                     @ py_str h @ '':'' @ py_str mi @ '':00''
      in bind_run (pure_run (strptime_YmdHMS date_str)) (\<lambda>dt.
           let julian_day = julday c (year dt) (month dt) (day dt)
                              (of_int (hour dt) + of_int (minute dt) / 60)
           in bind_run (emit (Set_topo longitude latitude 0) (Inr ())) (\<lambda>_.
                planets_loop c julian_day (enumerate 0 planets) [])))"

text \<open>
  \<^verbatim>\<open>calculate_ascendant\<close> resolves the timezone, raises when there is none, and takes
  the julian day of the civil time converted to UTC.
\<close>

definition calculate_ascendant ::
  "'jd collab \<Rightarrow> int \<Rightarrow> int \<Rightarrow> int \<Rightarrow> int \<Rightarrow> int \<Rightarrow> rat \<Rightarrow> rat \<Rightarrow> ('jd, pyfloat \<times> sign) run" where
  "calculate_ascendant c y mo d h mi latitude longitude =
     bind_run (get_timezone c latitude longitude) (\<lambda>timezone_str.
       case timezone_str of
         None \<Rightarrow> pure_run (Inl (ValueError TimezoneUnknown))
       | Some tz \<Rightarrow>
           bind_run (emit (Timezone tz) (timezone c tz)) (\<lambda>local_tz.
           bind_run (pure_run (datetime_new y mo d h mi 0)) (\<lambda>naive.
           bind_run (emit (To_utc local_tz naive) (to_utc c local_tz naive)) (\<lambda>utc_dt.
             let julian_day = julday c (year utc_dt) (month utc_dt) (day utc_dt)
                                (of_int (hour utc_dt) + of_int (minute utc_dt) / 60)
             in bind_run (emit (Houses julian_day latitude longitude)
                            (houses c julian_day latitude longitude)) (\<lambda>ascendant_degree.
                bind_run (pure_run (get_zodiac_sign ascendant_degree)) (\<lambda>ascendant_sign.
                pure_run (Inr (ascendant_degree, ascendant_sign))))))))"

section \<open>Conversation state machine\<close>

text \<open>
  \<^verbatim>\<open>context.user_data\<close>: a dictionary with at most the five keys below; a key that is
  absent is \<open>None\<close>. The step of the conversation is which keys are present.
\<close>

record user_data =
  birth_date :: "datetime option"
  birth_time :: "(int \<times> int) option"
  birth_place :: "(rat \<times> rat) option"
  nat_chart :: "(label \<times> position) list option"
  ascendant :: "position option"

definition empty_user_data :: user_data where
  "empty_user_data =
     \<lparr>birth_date = None, birth_time = None, birth_place = None,
      nat_chart = None, ascendant = None\<rparr>"

text \<open>
  The \<^verbatim>\<open>try\<close> block of \<^verbatim>\<open>handle_message\<close>: the dictionary as the block leaves it, the
  events, and the exception that left the block, if any. An assignment to the
  dictionary made before an exception stays made.
\<close>

definition handle_message_try ::
  "'jd collab \<Rightarrow> string \<Rightarrow> user_data \<Rightarrow> user_data \<times> 'jd event list \<times> exn option" where
  "handle_message_try c text ud =
     (case birth_date ud of
        None \<Rightarrow>
          (case validate_date text of
             Inl e \<Rightarrow> (ud, [], Some e)
           | Inr valid_date \<Rightarrow>
               (ud\<lparr>birth_date := Some valid_date\<rparr>, [Reply Ask_time], None))
      | Some date \<Rightarrow>
          (case birth_time ud of
             None \<Rightarrow>
               (case validate_time text of
                  Inl e \<Rightarrow> (ud, [], Some e)
                | Inr (h, mi) \<Rightarrow>
                    (ud\<lparr>birth_time := Some (h, mi)\<rparr>, [Reply Ask_place], None))
           | Some (h, mi) \<Rightarrow>
               (case birth_place ud of
                  Some place \<Rightarrow> (ud, [], None)
                | None \<Rightarrow>
                    (case get_coordinates c text of
                       (ev1, Inl e) \<Rightarrow> (ud, ev1, Some e)
                     | (ev1, Inr (latitude, longitude)) \<Rightarrow>
                         (let ud1 = ud\<lparr>birth_place := Some (latitude, longitude)\<rparr>
                          in case calculate_planet_positions c (year date) (month date)
                                    (day date) h mi latitude longitude of
                               (ev2, Inl e) \<Rightarrow> (ud1, ev1 @ ev2, Some e)
                             | (ev2, Inr chart) \<Rightarrow>
                                 (case calculate_ascendant c (year date) (month date)
                                         (day date) h mi latitude longitude of
                                    (ev3, Inl e) \<Rightarrow> (ud1, ev1 @ ev2 @ ev3, Some e)
                                  | (ev3, Inr (ascendant_degree, ascendant_sign)) \<Rightarrow>
                                      (let ud2 = ud1\<lparr>nat_chart := Some chart\<rparr>
                                       in case get_planet_description c Ascendant
                                                 ascendant_sign of
                                            (ev4, Inl e) \<Rightarrow>
                                              (ud2, ev1 @ ev2 @ ev3 @ ev4, Some e)
                                          | (ev4, Inr descr) \<Rightarrow>
                                              (ud2\<lparr>ascendant := Some
                                                 \<lparr>degree = ascendant_degree,
                                                  zodiac_sign = ascendant_sign,
                                                  description = descr\<rparr>\<rparr>,
                                               ev1 @ ev2 @ ev3 @ ev4 @ [Reply Chart_ready],
                                               None))))))))"

text \<open>
  \<^verbatim>\<open>handle_message\<close>: the \<^verbatim>\<open>except ValueError\<close> clause sends the text of the exception
  and returns; any other exception leaves the handler.
\<close>

definition handle_message ::
  "'jd collab \<Rightarrow> string \<Rightarrow> user_data \<Rightarrow> user_data \<times> 'jd event list \<times> exn option" where
  "handle_message c text ud =
     (case handle_message_try c text ud of
        (ud', ev, Some (ValueError m)) \<Rightarrow> (ud', ev @ [Reply (Error_text m)], None)
      | (ud', ev, r) \<Rightarrow> (ud', ev, r))"

text \<open>
  \<^verbatim>\<open>button_callback\<close>, with \<^verbatim>\<open>send_planet_buttons\<close> at its end. A key that the
  dictionary lacks raises \<^verbatim>\<open>KeyError\<close>. No collaborator is a parameter: the function
  reads the dictionary only.
\<close>

definition button_callback ::
  "label \<Rightarrow> user_data \<Rightarrow> user_data \<times> 'jd event list \<times> exn option" where
  "button_callback data ud =
     (if data = New_chart then
        (empty_user_data, [Answer_query, Reply Ask_date], None)
      else if data = Ascendant then
        (case ascendant ud of
           None \<Rightarrow> (ud, [Answer_query], Some KeyError)
         | Some a \<Rightarrow>
             (ud, [Answer_query,
                   Edit_message_text
                     (Position_text Ascendant (degree a) (zodiac_sign a) (description a)),
                   Edit_reply_markup], None))
      else
        (case nat_chart ud of
           None \<Rightarrow> (ud, [Answer_query], Some KeyError)
         | Some chart \<Rightarrow>
             (case map_of chart data of
                None \<Rightarrow> (ud, [Answer_query], Some KeyError)
              | Some planet \<Rightarrow>
                  (ud, [Answer_query,
                        Edit_message_text
                          (Position_text data (degree planet) (zodiac_sign planet)
                             (description planet)),
                        Edit_reply_markup], None))))"

text \<open>
  An update is a text message or a pressed button. A session is run by handling its
  updates one after the other, each against the collaborators as they behave at that
  moment.
\<close>

datatype update = Message string | Button label

definition dispatch ::
  "'jd collab \<Rightarrow> update \<Rightarrow> user_data \<Rightarrow> user_data \<times> 'jd event list \<times> exn option" where
  "dispatch c u ud =
     (case u of
        Message text \<Rightarrow> handle_message c text ud
      | Button data \<Rightarrow> button_callback data ud)"

fun run_session :: "('jd collab \<times> update) list \<Rightarrow> user_data \<Rightarrow> user_data" where
  "run_session [] ud = ud"
| "run_session ((c, u) # us) ud = run_session us (fst (dispatch c u ud))"


section \<open>The words of the specification\<close>

text \<open>
  A text of the form \<^verbatim>\<open>HH:MM\<close>: five characters, two digits, a colon, two digits, the
  hour at most 23 and the minute at most 59; and the pair of numbers it denotes.
\<close>

definition hhmm_text :: "string \<Rightarrow> bool" where
  "hhmm_text s =
     (length s = 5 \<and> is_digit (s ! 0) \<and> is_digit (s ! 1) \<and> s ! 2 = CHR '':''
      \<and> is_digit (s ! 3) \<and> is_digit (s ! 4)
      \<and> 10 * digit_value (s ! 0) + digit_value (s ! 1) \<le> 23
      \<and> 10 * digit_value (s ! 3) + digit_value (s ! 4) \<le> 59)"

definition hhmm_value :: "string \<Rightarrow> int \<times> int" where
  "hhmm_value s =
     (int (10 * digit_value (s ! 0) + digit_value (s ! 1)),
      int (10 * digit_value (s ! 3) + digit_value (s ! 4)))"





text \<open>The calls of the two ephemeris routines among the events.\<close>

fun is_ephemeris_call :: "'jd event \<Rightarrow> bool" where
  "is_ephemeris_call (Calc_ut jd i) = True"
| "is_ephemeris_call (Houses jd latitude longitude) = True"
| "is_ephemeris_call ev = False"

text \<open>The chart is ready when the planet positions and the ascendant are stored.\<close>

definition chart_ready :: "user_data \<Rightarrow> bool" where
  "chart_ready ud =
     (case nat_chart ud of
        None \<Rightarrow> False
      | Some chart \<Rightarrow> map fst chart = planets \<and> ascendant ud \<noteq> None)"


section \<open>Example collaborators\<close>

text \<open>
  The end-to-end example of the specification: born on 15.06.1990 at 08:45 in Moscow.
  The geocoder finds the city, the timezone is Europe/Moscow, four hours ahead of UTC
  on that day. The julian day is kept symbolic: it is the tuple of the arguments given
  to \<^verbatim>\<open>swe.julday\<close>. The ephemeris puts body \<open>i\<close> at \<open>30 i + 15\<close> degrees and the
  ascendant at 100 degrees; the description store has no rows.
\<close>

definition moscow_1990 :: "(int \<times> int \<times> int \<times> rat) collab" where
  "moscow_1990 =
     \<lparr>geocode = (\<lambda>name. Inr (Some (55.7558, 37.6173))),
      timezone_at = (\<lambda>latitude longitude. Inr (Some ''Europe/Moscow'')),
      timezone = (\<lambda>name. Inr name),
      to_utc = (\<lambda>tz dt. Inr (dt\<lparr>hour := hour dt - 4\<rparr>)),
      julday = (\<lambda>y m d h. (y, m, d, h)),
      calc_ut = (\<lambda>jd i. Inr (Finite (of_nat i * 30 + 15))),
      houses = (\<lambda>jd latitude longitude. Inr (Finite 100)),
      fetch = (\<lambda>l sg. Inr None)\<rparr>"

text \<open>The same, but the timezone lookup finds no zone for the coordinates.\<close>

definition no_timezone :: "(int \<times> int \<times> int \<times> rat) collab" where
  "no_timezone = moscow_1990\<lparr>timezone_at := (\<lambda>latitude longitude. Inr None)\<rparr>"


text \<open>The session after a valid date and a valid time: the place is awaited.\<close>

definition awaiting_place :: user_data where
  "awaiting_place =
     \<lparr>birth_date = Some \<lparr>year = 1990, month = 6, day = 15, hour = 0, minute = 0, second = 0\<rparr>,
      birth_time = Some (8, 45), birth_place = None, nat_chart = None, ascendant = None\<rparr>"

section \<open>Properties of the degree-to-sign mapping\<close>

lemma length_signs: "length signs = 12"
  by (simp add: signs_def)

lemma distinct_signs: "distinct signs"
  by (simp add: signs_def)

lemma index_of_nth: "distinct xs \<Longrightarrow> i < length xs \<Longrightarrow> index_of xs (xs ! i) = i"
proof (induction xs arbitrary: i)
  case Nil
  then show ?case by simp
next
  case (Cons x xs)
  show ?case
  proof (cases i)
    case 0
    then show ?thesis by simp
  next
    case (Suc k)
    with Cons.prems have "k < length xs" and "xs ! k \<in> set xs" and "x \<notin> set xs"
      by auto
    then have "x \<noteq> xs ! k" by auto
    with Suc Cons.IH [of k] Cons.prems show ?thesis by simp
  qed
qed

lemma band_of_degree:
  fixes d :: rat
  assumes "0 \<le> d" and "d < 360"
  shows "0 \<le> \<lfloor>d / 30\<rfloor>" and "\<lfloor>d / 30\<rfloor> < 12"
proof -
  from assms(1) show "0 \<le> \<lfloor>d / 30\<rfloor>" by simp
  from assms(2) have "d / 30 < 12" by simp
  then show "\<lfloor>d / 30\<rfloor> < 12" by (simp add: floor_less_iff)
qed

lemma get_zodiac_sign_Finite: "get_zodiac_sign (Finite d) = getitem signs \<lfloor>d / 30\<rfloor>"
  by (simp add: get_zodiac_sign_def)

lemma get_zodiac_sign_band:
  assumes "0 \<le> d" and "d < 360"
  shows "get_zodiac_sign (Finite d) = Inr (signs ! nat \<lfloor>d / 30\<rfloor>)"
  using band_of_degree [OF assms]
  by (simp add: get_zodiac_sign_Finite getitem_def length_signs)

lemma floor_359_999: "\<lfloor>(359.999 :: rat) / 30\<rfloor> = 11"
  by (rule floor_unique) simp_all

text \<open>
  C7. For every degree \<open>d\<close> in \<open>[0, 360)\<close>, \<open>get_zodiac_sign d\<close> returns the entry of
  the list of twelve (pairwise different) signs at index \<open>floor (d / 30)\<close>, an index
  below twelve; the index of the returned sign does not decrease when the degree grows
  within \<open>[0, 360)\<close>; degree \<open>0\<close> gives the first sign and \<open>359.999\<close> the last one.
\<close>

theorem get_zodiac_sign_in_domain:
  assumes "0 \<le> d" and "d \<le> e" and "e < 360"
  shows "get_zodiac_sign (Finite d) = Inr (signs ! nat \<lfloor>d / 30\<rfloor>)
       \<and> get_zodiac_sign (Finite e) = Inr (signs ! nat \<lfloor>e / 30\<rfloor>)
       \<and> nat \<lfloor>d / 30\<rfloor> < 12 \<and> length signs = 12 \<and> distinct signs
       \<and> index_of signs (signs ! nat \<lfloor>d / 30\<rfloor>) = nat \<lfloor>d / 30\<rfloor>
       \<and> index_of signs (signs ! nat \<lfloor>e / 30\<rfloor>) = nat \<lfloor>e / 30\<rfloor>
       \<and> index_of signs (signs ! nat \<lfloor>d / 30\<rfloor>) \<le> index_of signs (signs ! nat \<lfloor>e / 30\<rfloor>)
       \<and> get_zodiac_sign (Finite 0) = Inr Aries
       \<and> get_zodiac_sign (Finite 359.999) = Inr Pisces"
proof -
  from assms have d: "0 \<le> d" "d < 360" and e: "0 \<le> e" "e < 360"
    by simp_all
  have sd: "get_zodiac_sign (Finite d) = Inr (signs ! nat \<lfloor>d / 30\<rfloor>)"
    by (rule get_zodiac_sign_band [OF d])
  have se: "get_zodiac_sign (Finite e) = Inr (signs ! nat \<lfloor>e / 30\<rfloor>)"
    by (rule get_zodiac_sign_band [OF e])
  have bd: "nat \<lfloor>d / 30\<rfloor> < 12"
    using band_of_degree(2) [OF d] by linarith
  have be: "nat \<lfloor>e / 30\<rfloor> < 12"
    using band_of_degree(2) [OF e] by linarith
  have id: "index_of signs (signs ! nat \<lfloor>d / 30\<rfloor>) = nat \<lfloor>d / 30\<rfloor>"
    using bd by (simp add: index_of_nth distinct_signs length_signs)
  have ie: "index_of signs (signs ! nat \<lfloor>e / 30\<rfloor>) = nat \<lfloor>e / 30\<rfloor>"
    using be by (simp add: index_of_nth distinct_signs length_signs)
  from assms(2) have "d / 30 \<le> e / 30" by simp
  then have "\<lfloor>d / 30\<rfloor> \<le> \<lfloor>e / 30\<rfloor>" by (rule floor_mono)
  then have mono: "nat \<lfloor>d / 30\<rfloor> \<le> nat \<lfloor>e / 30\<rfloor>" by simp
  have first: "get_zodiac_sign (Finite 0) = Inr Aries"
    by (simp add: get_zodiac_sign_Finite getitem_def signs_def)
  have last: "get_zodiac_sign (Finite 359.999) = Inr Pisces"
    unfolding get_zodiac_sign_Finite floor_359_999
    by (simp add: getitem_def signs_def)
  from sd se bd id ie mono first last show ?thesis
    by (simp add: length_signs distinct_signs)
qed

theorem get_zodiac_sign_in_domain_witness:
  "get_zodiac_sign (Finite 45) = Inr Taurus \<and> get_zodiac_sign (Finite 200) = Inr Libra
   \<and> index_of signs Taurus \<le> index_of signs Libra"
proof -
  have f45: "\<lfloor>(45 :: rat) / 30\<rfloor> = 1" by (rule floor_unique) simp_all
  have f200: "\<lfloor>(200 :: rat) / 30\<rfloor> = 6" by (rule floor_unique) simp_all
  have t: "signs ! nat 1 = Taurus" and l: "signs ! nat 6 = Libra"
    by (simp_all add: signs_def)
  have "(0 :: rat) \<le> 45" and "(45 :: rat) \<le> 200" and "(200 :: rat) < 360"
    by simp_all
  from get_zodiac_sign_in_domain [OF this] show ?thesis
    unfolding f45 f200 t l by simp
qed

text \<open>
  C10 (as amended). Outside the documented domain the function is partial on one side
  only: every finite degree \<open>d \<ge> 360\<close> raises \<^verbatim>\<open>IndexError\<close>, while every degree in
  \<open>[-360, 0)\<close> returns the sign that Python's negative indexing selects,
  \<open>signs[floor (d / 30)]\<close> counted from the end; \<open>d = -1\<close> gives the last sign.
\<close>

theorem get_zodiac_sign_outside_domain:
  "(360 \<le> d \<longrightarrow> get_zodiac_sign (Finite d) = Inl IndexError)
   \<and> (- 360 \<le> d \<and> d < 0 \<longrightarrow>
        \<lfloor>d / 30\<rfloor> < 0 \<and> get_zodiac_sign (Finite d) = Inr (signs ! nat (12 + \<lfloor>d / 30\<rfloor>)))
   \<and> get_zodiac_sign (Finite (- 1)) = Inr Pisces"
proof (intro conjI impI)
  assume "360 \<le> d"
  then have "12 \<le> d / 30" by simp
  then have "12 \<le> \<lfloor>d / 30\<rfloor>" by (simp add: le_floor_iff)
  then show "get_zodiac_sign (Finite d) = Inl IndexError"
    by (simp add: get_zodiac_sign_Finite getitem_def length_signs)
next
  assume neg: "- 360 \<le> d \<and> d < 0"
  then have "d / 30 < 0" and "- 12 \<le> d / 30" by simp_all
  then have lo: "- 12 \<le> \<lfloor>d / 30\<rfloor>" and hi: "\<lfloor>d / 30\<rfloor> < 0"
    by (simp_all add: le_floor_iff floor_less_iff)
  from hi show "\<lfloor>d / 30\<rfloor> < 0" .
  define k where "k = \<lfloor>d / 30\<rfloor>"
  with lo hi have "- 12 \<le> k" and "k < 0" by simp_all
  then have "getitem signs k = Inr (signs ! nat (12 + k))"
    by (simp add: getitem_def length_signs Let_def add.commute)
  then show "get_zodiac_sign (Finite d) = Inr (signs ! nat (12 + \<lfloor>d / 30\<rfloor>))"
    by (simp add: get_zodiac_sign_Finite k_def)
next
  have "\<lfloor>(- 1 :: rat) / 30\<rfloor> = - 1" by (rule floor_unique) simp_all
  then show "get_zodiac_sign (Finite (- 1)) = Inr Pisces"
    by (simp add: get_zodiac_sign_Finite getitem_def signs_def)
qed

theorem get_zodiac_sign_outside_domain_witness:
  "get_zodiac_sign (Finite 360) = Inl IndexError \<and> get_zodiac_sign (Finite (- 45)) = Inr Aquarius"
proof -
  have f: "\<lfloor>(- 45 :: rat) / 30\<rfloor> = - 2" by (rule floor_unique) simp_all
  have a: "signs ! nat (12 + (- 2)) = Aquarius" by (simp add: signs_def)
  from get_zodiac_sign_outside_domain [of 360] get_zodiac_sign_outside_domain [of "- 45"]
  show ?thesis unfolding f a by simp
qed

text \<open>
  The degree \<open>+inf\<close> is a float that is at least 360, and there the function raises
  \<^verbatim>\<open>ValueError\<close>, not \<^verbatim>\<open>IndexError\<close>.
\<close>

theorem get_zodiac_sign_infinity_counterexample:
  "float_le (Finite 360) PosInf
   \<and> get_zodiac_sign PosInf = Inl (ValueError LibraryMessage)
   \<and> get_zodiac_sign PosInf \<noteq> Inl IndexError"
  by (simp add: get_zodiac_sign_def)

section \<open>Properties of the validators\<close>

lemma chars_length: "(m, r) \<in> set (chars ps s) \<Longrightarrow> s = m @ r \<and> length m = length ps"
  by (induction ps s arbitrary: m r rule: chars.induct) (auto split: if_splits)

lemma chars_short: "length s < length ps \<Longrightarrow> chars ps s = []"
  by (induction ps s rule: chars.induct) auto

lemma five_chars: "5 \<le> length s \<Longrightarrow> \<exists>a b c d e r. s = a # b # c # d # e # r"
  by (simp add: Suc_le_length_iff eval_nat_numeral) blast

lemma digit_not_colon: "is_digit c \<Longrightarrow> c \<noteq> CHR '':''"
  by (auto simp add: is_digit_def between_def)

lemma utf8_head_ascii:
  "(of_char a :: int) < 128 \<Longrightarrow> utf8_head (a # s) = Some (of_char a, [a], s)"
  by (simp add: utf8_head_def)

lemma utf8_decode_Nil: "utf8_decode [] = Some []"
  by (simp add: utf8_decode.simps utf8_head_def)

lemma utf8_decode_ascii:
  "(of_char a :: int) < 128 \<Longrightarrow>
     utf8_decode (a # s) = map_option ((#) (of_char a)) (utf8_decode s)"
  by (subst utf8_decode.simps) (simp add: utf8_head_ascii)

lemma digit_code:
  "is_digit a \<Longrightarrow> (of_char a :: int) = 48 + int (digit_value a) \<and> digit_value a \<le> 9"
proof -
  assume "is_digit a"
  then have "(48 :: nat) \<le> of_char a" and "(of_char a :: nat) \<le> 57"
    by (simp_all add: is_digit_def between_def)
  then have "(of_char a :: nat) = 48 + digit_value a \<and> digit_value a \<le> 9"
    by (simp add: digit_value_def)
  moreover have "(of_char a :: int) = int (of_char a)"
    by (rule of_nat_of_char [symmetric])
  ultimately show ?thesis by simp
qed

lemma digit_ascii: "is_digit a \<Longrightarrow> (of_char a :: int) < 128"
  using digit_code [of a] by simp

lemma decimal_value_digit:
  "is_digit a \<Longrightarrow> decimal_value (of_char a) = Some (int (digit_value a))"
  using digit_code [of a] by (simp add: decimal_value_def decimal_zeros_def)

lemma digit_not_space: "is_digit a \<Longrightarrow> \<not> is_space (of_char a)"
  using digit_code [of a] by (auto simp add: is_space_def white_space_def)

lemma lf_space: "is_space 10"
  by (simp add: is_space_def white_space_def)

lemma lf_decode: "utf8_decode (CHR 0x0A # s) = map_option ((#) 10) (utf8_decode s)"
  using utf8_decode_ascii [of "CHR 0x0A" s] by simp

lemma py_int_two:
  assumes "is_digit a" and "is_digit b"
  shows "py_int [a, b] = Inr (int (10 * digit_value a + digit_value b))"
proof -
  have "utf8_decode [a, b] = Some [of_char a, of_char b]"
    using assms by (simp add: utf8_decode_ascii digit_ascii utf8_decode_Nil)
  with assms show ?thesis
    by (simp add: py_int_def strip_def digit_not_space digits_value_def decimal_value_digit)
qed

lemma py_int_two_lf:
  assumes "is_digit a" and "is_digit b"
  shows "py_int [a, b, CHR 0x0A] = Inr (int (10 * digit_value a + digit_value b))"
proof -
  have "utf8_decode [a, b, CHR 0x0A] = Some [of_char a, of_char b, 10]"
    using assms by (simp add: utf8_decode_ascii digit_ascii utf8_decode_Nil lf_decode)
  with assms show ?thesis
    by (simp add: py_int_def strip_def digit_not_space lf_space digits_value_def
          decimal_value_digit)
qed

lemma split_on_no_sep: "sep \<notin> set r \<Longrightarrow> split_on sep r = [r]"
  by (induction r) auto

lemma split_time: "is_digit a \<Longrightarrow> is_digit b \<Longrightarrow>
  CHR '':'' \<notin> set r \<Longrightarrow> split_on CHR '':'' (a # b # CHR '':'' # r) = [[a, b], r]"
  by (simp add: digit_not_colon split_on_no_sep)

lemma match_time_shape:
  "match_time (a # b # c # d # e # r) =
     (between CHR ''0'' CHR ''2'' a \<and> is_digit b \<and> c = CHR '':'' \<and> between CHR ''0'' CHR ''5'' d \<and> is_digit e
      \<and> (r = [] \<or> r = [CHR 0x0A]))"
  by (auto simp add: match_time_def is_digit_def)

lemma match_time_long: "match_time s \<Longrightarrow> 5 \<le> length s"
proof (rule ccontr)
  assume m: "match_time s" and "\<not> 5 \<le> length s"
  then have "chars [between CHR ''0'' CHR ''2'', between CHR ''0'' CHR ''9'', (=) CHR '':'',
                  between CHR ''0'' CHR ''5'', between CHR ''0'' CHR ''9''] s = []"
    by (intro chars_short) simp
  with m show False by (simp add: match_time_def)
qed

lemma between_digit: "between CHR ''0'' CHR ''2'' a \<Longrightarrow> is_digit a" "between CHR ''0'' CHR ''5'' a \<Longrightarrow> is_digit a"
  by (simp_all add: is_digit_def between_def)

lemma hour_range: "is_digit a \<Longrightarrow> is_digit b \<Longrightarrow> 10 * digit_value a + digit_value b \<le> 23 \<Longrightarrow> between CHR ''0'' CHR ''2'' a"
  by (simp add: is_digit_def between_def digit_value_def) arith

lemma minute_range: "is_digit a \<Longrightarrow> is_digit b \<Longrightarrow> (10 * digit_value a + digit_value b \<le> 59) = between CHR ''0'' CHR ''5'' a"
  by (simp add: is_digit_def between_def digit_value_def) arith

lemma validate_time_shape:
  "validate_time (a # b # c # d # e # r) =
     (if is_digit a \<and> is_digit b \<and> c = CHR '':'' \<and> is_digit d \<and> is_digit e
         \<and> 10 * digit_value a + digit_value b \<le> 23 \<and> 10 * digit_value d + digit_value e \<le> 59
         \<and> (r = [] \<or> r = [CHR 0x0A])
      then Inr (int (10 * digit_value a + digit_value b), int (10 * digit_value d + digit_value e))
      else Inl (ValueError InvalidTimeFormat))"
proof (cases "match_time (a # b # c # d # e # r)")
  case False
  then show ?thesis
    using hour_range [of a b] minute_range [of d e]
    by (auto simp add: validate_time_def match_time_shape)
next
  case True
  then have cls: "between CHR ''0'' CHR ''2'' a" "is_digit b" "c = CHR '':''"
    "between CHR ''0'' CHR ''5'' d" "is_digit e" and r: "r = [] \<or> r = [CHR 0x0A]"
    by (simp_all add: match_time_shape)
  from cls have da: "is_digit a" and dd: "is_digit d" by (simp_all add: between_digit)
  have nc: "CHR '':'' \<notin> set (d # e # r)"
    using r dd cls(5) by (auto dest: digit_not_colon)
  have sp: "split_on CHR '':'' (a # b # CHR '':'' # d # e # r) = [[a, b], d # e # r]"
    by (rule split_time [OF da cls(2) nc])
  have pm: "py_int (d # e # r) = Inr (int (10 * digit_value d + digit_value e))"
    using r py_int_two [OF dd cls(5)] py_int_two_lf [OF dd cls(5)] by auto
  have mr: "10 * digit_value d + digit_value e \<le> 59"
    using minute_range [OF dd cls(5)] cls(4) by simp
  show ?thesis
    using True da dd cls(2,3,5) r mr
    by (simp add: validate_time_def sp pm py_int_two del: split_on.simps)
qed

lemma hhmm_shape:
  "hhmm_text (a # b # c # d # e # r) =
     (is_digit a \<and> is_digit b \<and> c = CHR '':'' \<and> is_digit d \<and> is_digit e
      \<and> 10 * digit_value a + digit_value b \<le> 23 \<and> 10 * digit_value d + digit_value e \<le> 59 \<and> r = [])"
  by (auto simp add: hhmm_text_def)

lemma hhmm_value_shape:
  "hhmm_value (a # b # c # d # e # r) =
     (int (10 * digit_value a + digit_value b), int (10 * digit_value d + digit_value e))"
  by (simp add: hhmm_value_def)

lemma validate_time_form:
  "validate_time s =
     (if hhmm_text s \<or> (s \<noteq> [] \<and> last s = CHR 0x0A \<and> hhmm_text (butlast s))
      then Inr (hhmm_value s) else Inl (ValueError InvalidTimeFormat))"
proof (cases "5 \<le> length s")
  case False
  then have "\<not> match_time s" using match_time_long by blast
  moreover have "length t = 5" if "hhmm_text t" for t
    using that by (simp add: hhmm_text_def)
  from this [of s] this [of "butlast s"] False
  have "\<not> hhmm_text s" and "\<not> hhmm_text (butlast s)"
    by auto
  ultimately show ?thesis by (simp add: validate_time_def)
next
  case True
  then obtain a b c d e r where s: "s = a # b # c # d # e # r"
    using five_chars by blast
  show ?thesis
  proof (cases r)
    case Nil
    with s show ?thesis
      by (simp add: validate_time_shape hhmm_shape hhmm_value_shape hhmm_text_def)
  next
    case (Cons x r')
    show ?thesis
    proof (cases r')
      case Nil
      with s Cons show ?thesis
        by (auto simp add: validate_time_shape hhmm_shape hhmm_value_shape)
    next
      case (Cons y r'')
      with s \<open>r = x # r'\<close> show ?thesis
        by (simp add: validate_time_shape hhmm_shape hhmm_text_def)
    qed
  qed
qed

lemma py_int_error: "py_int t = Inl e \<Longrightarrow> e = ValueError LibraryMessage"
  by (auto simp add: py_int_def Let_def split: option.splits if_splits)

lemma datetime_new_error: "datetime_new y m d hh mm ss = Inl e \<Longrightarrow> e = ValueError LibraryMessage"
  by (auto simp add: datetime_new_def split: if_splits)

lemma strptime_dmY_error: "strptime_dmY s = Inl e \<Longrightarrow> e = ValueError LibraryMessage"
  by (auto simp add: strptime_dmY_def split: list.splits if_splits sum.splits prod.splits dest: datetime_new_error)



lemma validate_date_Inl: "validate_date s = Inl e \<Longrightarrow> e = ValueError InvalidDateFormat"
  by (auto simp add: validate_date_def split: sum.splits exn.splits if_splits dest: strptime_dmY_error)


text \<open>
  C4. The claim asks that only the padded format \<^verbatim>\<open>DD.MM.YYYY\<close> is accepted, and that
  \<open>1.1.2020\<close> fails with the invalid-format error. \<open>validate_date\<close> hands the text to
  \<^verbatim>\<open>strptime\<close>, which takes a day and a month of one digit and the decimal digits of
  any script: \<open>1.1.2020\<close> is accepted as the first of January 2020, and so is
  \<open>15.06.1990\<close> with its year written in Arabic-Indic digits. The leap day
  \<open>29.02.2024\<close> is accepted and \<open>31.02.2024\<close> is refused with the invalid-format
  error, as the claim says.
\<close>

theorem validate_date_accepts_unpadded:
  "validate_date ''1.1.2020''
     = Inr \<lparr>year = 2020, month = 1, day = 1, hour = 0, minute = 0, second = 0\<rparr>
   \<and> validate_date ''1.1.2020'' \<noteq> Inl (ValueError InvalidDateFormat)
   \<and> validate_date
        (''15.06.'' @ [CHR 0xD9, CHR 0xA1, CHR 0xD9, CHR 0xA9,
                       CHR 0xD9, CHR 0xA9, CHR 0xD9, CHR 0xA0])
       = Inr \<lparr>year = 1990, month = 6, day = 15, hour = 0, minute = 0, second = 0\<rparr>
   \<and> validate_date ''29.02.2024''
       = Inr \<lparr>year = 2024, month = 2, day = 29, hour = 0, minute = 0, second = 0\<rparr>
   \<and> validate_date ''31.02.2024'' = Inl (ValueError InvalidDateFormat)"
proof (intro conjI)
  show a: "validate_date ''1.1.2020''
     = Inr \<lparr>year = 2020, month = 1, day = 1, hour = 0, minute = 0, second = 0\<rparr>"
    by code_simp
  from a show "validate_date ''1.1.2020'' \<noteq> Inl (ValueError InvalidDateFormat)"
    by simp
  show "validate_date
        (''15.06.'' @ [CHR 0xD9, CHR 0xA1, CHR 0xD9, CHR 0xA9,
                       CHR 0xD9, CHR 0xA9, CHR 0xD9, CHR 0xA0])
       = Inr \<lparr>year = 1990, month = 6, day = 15, hour = 0, minute = 0, second = 0\<rparr>"
    by code_simp
  show "validate_date ''29.02.2024''
       = Inr \<lparr>year = 2024, month = 2, day = 29, hour = 0, minute = 0, second = 0\<rparr>"
    by code_simp
  show "validate_date ''31.02.2024'' = Inl (ValueError InvalidDateFormat)"
    by code_simp
qed

text \<open>
  C5. The claim asks for the future-year error on \<open>01.01.2025\<close>. The function raises
  the invalid-format error there: the future-year \<^verbatim>\<open>ValueError\<close> is raised inside the
  \<^verbatim>\<open>try\<close> block and replaced by the \<^verbatim>\<open>except ValueError\<close> clause, so that no text at
  all makes \<open>validate_date\<close> raise the future-year error.
\<close>

theorem validate_date_future_year_masked:
  "validate_date ''01.01.2025'' = Inl (ValueError InvalidDateFormat)
   \<and> strptime_dmY ''01.01.2025''
       = Inr \<lparr>year = 2025, month = 1, day = 1, hour = 0, minute = 0, second = 0\<rparr>
   \<and> validate_date s \<noteq> Inl (ValueError FutureYear)"
proof (intro conjI)
  show "validate_date ''01.01.2025'' = Inl (ValueError InvalidDateFormat)"
    by code_simp
  show "strptime_dmY ''01.01.2025''
       = Inr \<lparr>year = 2025, month = 1, day = 1, hour = 0, minute = 0, second = 0\<rparr>"
    by code_simp
  show "validate_date s \<noteq> Inl (ValueError FutureYear)"
    by (auto dest: validate_date_Inl)
qed

text \<open>
  C6. The claim asks that \<open>validate_time\<close> succeeds exactly on the texts of the form
  \<^verbatim>\<open>HH:MM\<close>. The pattern ends in \<^verbatim>\<open>$\<close>, which also matches just before a line feed that
  ends the text, and \<^verbatim>\<open>int\<close> strips that line feed: \<open>14:30\<close> followed by a line feed,
  six characters that are not of the form \<^verbatim>\<open>HH:MM\<close>, is accepted as \<open>(14, 30)\<close>. That
  final line feed is the only departure: \<open>14:30\<close> gives \<open>(14, 30)\<close>, \<open>24:00\<close> and
  \<open>9:30\<close> fail with the invalid-time error, and so does every text that is neither of
  the form \<^verbatim>\<open>HH:MM\<close> nor such a text followed by one line feed.
\<close>

theorem validate_time_accepts_line_feed:
  "validate_time (''14:30'' @ [CHR 0x0A]) = Inr (14, 30)
   \<and> \<not> hhmm_text (''14:30'' @ [CHR 0x0A])
   \<and> length (''14:30'' @ [CHR 0x0A]) = 6
   \<and> validate_time ''14:30'' = Inr (14, 30)
   \<and> validate_time ''24:00'' = Inl (ValueError InvalidTimeFormat)
   \<and> validate_time ''9:30'' = Inl (ValueError InvalidTimeFormat)
   \<and> validate_time s =
       (if hhmm_text s \<or> (s \<noteq> [] \<and> last s = CHR 0x0A \<and> hhmm_text (butlast s))
        then Inr (hhmm_value s) else Inl (ValueError InvalidTimeFormat))"
proof (intro conjI)
  show "validate_time (''14:30'' @ [CHR 0x0A]) = Inr (14, 30)"
    by (simp add: validate_time_shape is_digit_def between_def digit_value_def)
  show "\<not> hhmm_text (''14:30'' @ [CHR 0x0A])"
    by (simp add: hhmm_text_def)
  show "length (''14:30'' @ [CHR 0x0A]) = 6"
    by simp
  show "validate_time ''14:30'' = Inr (14, 30)" by code_simp
  show "validate_time ''24:00'' = Inl (ValueError InvalidTimeFormat)" by code_simp
  show "validate_time ''9:30'' = Inl (ValueError InvalidTimeFormat)" by code_simp
  show "validate_time s =
       (if hhmm_text s \<or> (s \<noteq> [] \<and> last s = CHR 0x0A \<and> hhmm_text (butlast s))
        then Inr (hhmm_value s) else Inl (ValueError InvalidTimeFormat))"
    by (rule validate_time_form)
qed

section \<open>Properties of the chart calculator\<close>















section \<open>Properties of the conversation\<close>

















lemma chart_ready_lookup:
  assumes "chart_ready ud" and "data \<in> set planets"
  shows "\<exists>chart pos. nat_chart ud = Some chart \<and> map_of chart data = Some pos"
proof -
  from assms(1) obtain chart where c: "nat_chart ud = Some chart" "map fst chart = planets"
    by (auto simp add: chart_ready_def split: option.splits)
  from c(2) assms(2) have "data \<in> fst ` set chart"
    by (metis set_map)
  then have "map_of chart data \<noteq> None"
    by (simp add: map_of_eq_None_iff)
  with c(1) show ?thesis by auto
qed

lemma planets_not_buttons: "data \<in> set planets \<Longrightarrow> data \<noteq> New_chart \<and> data \<noteq> Ascendant"
  by (auto simp add: planets_def)

text \<open>
  C9. In a session whose chart is ready, selecting a planet or the ascendant answers
  the query, shows the stored degree, sign and description of that body and restores the
  keyboard; it calls no collaborator, so nothing is computed again, and it leaves the
  session data as they were. Selecting the same label a second time therefore gives the
  same outcome, whatever the collaborators would answer by then.
\<close>

theorem button_callback_idempotent:
  assumes "chart_ready ud" and "data \<in> set planets \<or> data = Ascendant"
  shows "\<exists>pos.
           (data = Ascendant \<and> ascendant ud = Some pos
            \<or> data \<in> set planets
              \<and> (\<exists>chart. nat_chart ud = Some chart \<and> map_of chart data = Some pos))
         \<and> dispatch c (Button data) ud
             = (ud,
                [Answer_query,
                 Edit_message_text
                   (Position_text data (degree pos) (zodiac_sign pos) (description pos)),
                 Edit_reply_markup],
                None)
         \<and> dispatch c' (Button data) (fst (dispatch c (Button data) ud))
             = dispatch c (Button data) ud
         \<and> filter is_ephemeris_call (fst (snd (dispatch c (Button data) ud))) = []"
proof (cases "data = Ascendant")
  case True
  from assms(1) obtain pos where "ascendant ud = Some pos"
    by (auto simp add: chart_ready_def split: option.splits)
  with True show ?thesis
    by (intro exI [of _ pos]) (simp add: dispatch_def button_callback_def)
next
  case False
  with assms(2) have p: "data \<in> set planets" by simp
  from chart_ready_lookup [OF assms(1) p] obtain chart pos where
    "nat_chart ud = Some chart" "map_of chart data = Some pos"
    by blast
  with p planets_not_buttons [OF p] show ?thesis
    by (intro exI [of _ pos]) (simp add: dispatch_def button_callback_def)
qed

theorem button_callback_idempotent_witness:
  "dispatch no_timezone (Button Mars)
     (fst (dispatch moscow_1990 (Button Mars)
            (fst (handle_message moscow_1990 ''Moskva'' awaiting_place))))
   = dispatch moscow_1990 (Button Mars)
       (fst (handle_message moscow_1990 ''Moskva'' awaiting_place))
   \<and> filter is_ephemeris_call
        (fst (snd (dispatch moscow_1990 (Button Mars)
                    (fst (handle_message moscow_1990 ''Moskva'' awaiting_place))))) = []"
proof -
  define ready where "ready = fst (handle_message moscow_1990 ''Moskva'' awaiting_place)"
  have r: "chart_ready ready"
    unfolding ready_def by code_simp
  have m: "Mars \<in> set planets \<or> Mars = Ascendant"
    by (simp add: planets_def)
  have "dispatch no_timezone (Button Mars) (fst (dispatch moscow_1990 (Button Mars) ready))
          = dispatch moscow_1990 (Button Mars) ready
        \<and> filter is_ephemeris_call (fst (snd (dispatch moscow_1990 (Button Mars) ready))) = []"
    using button_callback_idempotent [OF r m, of moscow_1990 no_timezone]
    by (elim exE conjE) (intro conjI; assumption)
  then show ?thesis by (simp only: ready_def)
qed




text \<open>
  C1. The claim asks that the ten calls of the body-position routine and the call of
  the house-cusp routine receive one julian day, that of the civil time converted to UTC.
  In the example of the specification (15.06.1990, 08:45, Moscow, four hours ahead of
  UTC) the session is completed with ten body calls and one house call, but the ten body
  calls receive the julian day of the civil time 08:45 as it stands, and only the house
  call receives the julian day of 04:45 UTC.
\<close>

theorem planet_julian_day_is_local_time:
  "run_session [(moscow_1990, Message ''15.06.1990''), (moscow_1990, Message ''08:45'')]
       empty_user_data = awaiting_place
   \<and> filter is_ephemeris_call
        (fst (snd (handle_message moscow_1990 ''Moskva'' awaiting_place)))
       = map (Calc_ut (1990, 6, 15, 35 / 4)) [0, 1, 2, 3, 4, 5, 6, 7, 8, 9]
         @ [Houses (1990, 6, 15, 19 / 4) 55.7558 37.6173]
   \<and> chart_ready (fst (handle_message moscow_1990 ''Moskva'' awaiting_place))
   \<and> (1990, 6, 15, 35 / 4) \<noteq> (1990 :: int, 6 :: int, 15 :: int, 19 / 4 :: rat)"
proof (intro conjI)
  show "run_session [(moscow_1990, Message ''15.06.1990''), (moscow_1990, Message ''08:45'')]
       empty_user_data = awaiting_place"
    by code_simp
  show "filter is_ephemeris_call
        (fst (snd (handle_message moscow_1990 ''Moskva'' awaiting_place)))
       = map (Calc_ut (1990, 6, 15, 35 / 4)) [0, 1, 2, 3, 4, 5, 6, 7, 8, 9]
         @ [Houses (1990, 6, 15, 19 / 4) 55.7558 37.6173]"
    by code_simp
  show "chart_ready (fst (handle_message moscow_1990 ''Moskva'' awaiting_place))"
    by code_simp
  show "(1990, 6, 15, 35 / 4) \<noteq> (1990 :: int, 6 :: int, 15 :: int, 19 / 4 :: rat)"
    by simp
qed

text \<open>
  C2. The claim asks that a failure of the place step leaves the session as it was.
  When the geocoder finds the place but no timezone is known for its coordinates, the
  handler reports the timezone error, yet the coordinates stay stored: they were
  assigned before the chart was computed. The session is then past the place step
  without a chart, and the next text message, whatever the collaborators answer by then,
  is not handled at all.
\<close>

theorem timezone_failure_keeps_birth_place:
  "fst (handle_message no_timezone ''Moskva'' awaiting_place)
     = awaiting_place\<lparr>birth_place := Some (55.7558, 37.6173)\<rparr>
   \<and> fst (handle_message no_timezone ''Moskva'' awaiting_place) \<noteq> awaiting_place
   \<and> last (fst (snd (handle_message no_timezone ''Moskva'' awaiting_place)))
       = Reply (Error_text TimezoneUnknown)
   \<and> snd (snd (handle_message no_timezone ''Moskva'' awaiting_place)) = None
   \<and> handle_message moscow_1990 ''Moskva''
        (fst (handle_message no_timezone ''Moskva'' awaiting_place))
       = (awaiting_place\<lparr>birth_place := Some (55.7558, 37.6173)\<rparr>, [], None)"
proof (intro conjI)
  show "fst (handle_message no_timezone ''Moskva'' awaiting_place)
     = awaiting_place\<lparr>birth_place := Some (55.7558, 37.6173)\<rparr>"
    by code_simp
  show "fst (handle_message no_timezone ''Moskva'' awaiting_place) \<noteq> awaiting_place"
    by code_simp
  show "last (fst (snd (handle_message no_timezone ''Moskva'' awaiting_place)))
       = Reply (Error_text TimezoneUnknown)"
    by code_simp
  show "snd (snd (handle_message no_timezone ''Moskva'' awaiting_place)) = None"
    by code_simp
  show "handle_message moscow_1990 ''Moskva''
        (fst (handle_message no_timezone ''Moskva'' awaiting_place))
       = (awaiting_place\<lparr>birth_place := Some (55.7558, 37.6173)\<rparr>, [], None)"
    by code_simp
qed

text \<open>
  C8. The claim asks that \<open>get_timezone\<close> fails with the timezone error when the
  lookup yields nothing. The function returns whatever the lookup returns, the null
  value included; the error is raised one level up, by \<open>calculate_ascendant\<close>.
\<close>

theorem get_timezone_returns_none:
  "get_timezone no_timezone 55.7558 37.6173 = ([Timezone_at 55.7558 37.6173], Inr None)
   \<and> get_timezone c latitude longitude
       = ([Timezone_at latitude longitude], timezone_at c latitude longitude)
   \<and> calculate_ascendant no_timezone 1990 6 15 8 45 55.7558 37.6173
       = ([Timezone_at 55.7558 37.6173], Inl (ValueError TimezoneUnknown))"
proof (intro conjI)
  show "get_timezone no_timezone 55.7558 37.6173 = ([Timezone_at 55.7558 37.6173], Inr None)"
    by code_simp
  show "get_timezone c latitude longitude
       = ([Timezone_at latitude longitude], timezone_at c latitude longitude)"
    by (simp add: get_timezone_def emit_def)
  show "calculate_ascendant no_timezone 1990 6 15 8 45 55.7558 37.6173
       = ([Timezone_at 55.7558 37.6173], Inl (ValueError TimezoneUnknown))"
    by code_simp
qed

end
